theory Spec2Isabelle
  imports Complex_Main
begin

section \<open>Python values used by the query path\<close>

text \<open>
  The retrieval-augmented query path of the maintenance assistant
  (\<^verbatim>\<open>src/rag_pipeline/pipeline.py\<close>, \<^verbatim>\<open>src/data_processing/embeddings.py\<close>)
  is embedded function by function. Strings are character lists, Python's unbounded
  integers are \<open>int\<close>, and a floating point number is the real number it denotes.
  Comparisons of floats are exact, and \<^verbatim>\<open>round(x, n)\<close> is the correctly rounded
  decimal with ties going to the even digit, which is what CPython computes on the
  exact value of a float; the decimal stands for the float nearest to it. The sum and
  the quotient of floats round their results: they are operations of the interpreter
  and come as the parameter \<open>fl\<close>. Infinities and NaN are outside the model. Every
  exception is a value of type \<open>exn\<close>, and a call that may raise returns
  \<open>exn + 'a\<close> with \<open>Inl\<close> for the exception.
\<close>

datatype exn = Exception string | RetryError

text \<open>
  The floating point operations of the interpreter that the query path uses: the
  built-in \<^verbatim>\<open>sum\<close> of a sequence of floats and the division \<^verbatim>\<open>x / y\<close>. Each returns
  a float near the exact result, not the exact result.
\<close>

record float_arith =
  float_sum :: "real list \<Rightarrow> real"
  float_div :: "real \<Rightarrow> real \<Rightarrow> real"

text \<open>\<^verbatim>\<open>max(a, b)\<close> and \<^verbatim>\<open>min(a, b)\<close> return the first argument unless the second
  one is strictly better.\<close>

definition py_max :: "real \<Rightarrow> real \<Rightarrow> real" where
  "py_max a b = (if b > a then b else a)"

definition py_min :: "real \<Rightarrow> real \<Rightarrow> real" where
  "py_min a b = (if b < a then b else a)"

definition round_half_even :: "real \<Rightarrow> int" where
  "round_half_even x =
     (let f = \<lfloor>x\<rfloor>; d = x - of_int f in
      if d < 1 / 2 then f
      else if 1 / 2 < d then f + 1
      else if even f then f else f + 1)"

text \<open>\<^verbatim>\<open>round(x, ndigits)\<close> for a non-negative number of digits.\<close>

definition py_round :: "real \<Rightarrow> nat \<Rightarrow> real" where
  "py_round x ndigits = of_int (round_half_even (x * 10 ^ ndigits)) / 10 ^ ndigits"

text \<open>The slice \<^verbatim>\<open>xs[:n]\<close>; a negative bound counts from the end.\<close>

definition py_slice_to :: "'a list \<Rightarrow> int \<Rightarrow> 'a list" where
  "py_slice_to xs n =
     (if 0 \<le> n then take (nat n) xs else take (nat (int (length xs) + n)) xs)"

text \<open>\<^verbatim>\<open>sep.join(parts)\<close>.\<close>

fun join :: "string \<Rightarrow> string list \<Rightarrow> string" where
  "join sep [] = []"
| "join sep [x] = x"
| "join sep (x # y # ys) = x @ sep @ join sep (y # ys)"

text \<open>\<^verbatim>\<open>str(n)\<close> for an integer, used by the f-string of the cache key.\<close>

fun str_nat :: "nat \<Rightarrow> string" where
  "str_nat n =
     (if n < 10 then [char_of (48 + n)]
      else str_nat (n div 10) @ [char_of (48 + n mod 10)])"

declare str_nat.simps [simp del]

definition str_int :: "int \<Rightarrow> string" where
  "str_int i = (if i < 0 then CHR ''-'' # str_nat (nat (- i)) else str_nat (nat i))"

section \<open>Data model\<close>

text \<open>A langchain \<^verbatim>\<open>Document\<close>: the chunk text and its metadata dictionary.\<close>

record document =
  page_content :: string
  metadata :: "string \<rightharpoonup> string"

text \<open>A retrieval result is a \<^verbatim>\<open>(document, score)\<close> tuple.\<close>

type_synonym scored = "document \<times> real"

text \<open>One entry of the \<^verbatim>\<open>sources\<close> list. The dictionary keys \<^verbatim>\<open>id\<close> and
  \<^verbatim>\<open>metadata\<close> are the fields \<open>source_id\<close> and \<open>source_metadata\<close>.\<close>

record source_info =
  source_id :: int
  content :: string
  source_metadata :: "string \<rightharpoonup> string"
  similarity_score :: real

text \<open>The dictionary returned by \<^verbatim>\<open>RAGPipeline.query\<close>.\<close>

record response =
  answer :: string
  sources :: "source_info list"
  confidence :: real

section \<open>Retry decorator\<close>

text \<open>
  \<^verbatim>\<open>@retry(stop=stop_after_attempt(3), wait=wait_exponential(...))\<close> of the tenacity
  library calls the decorated function again whenever it raises, and raises
  \<^verbatim>\<open>RetryError\<close> once the given number of attempts have all raised. A value that the
  function returns is handed to the caller at once. The pauses between attempts
  change no value and are left out. The decorated function works on a state \<open>'s\<close>
  (the record of the calls made to the hosted service).
\<close>

primrec retry :: "nat \<Rightarrow> ('s \<Rightarrow> (exn + 'a) \<times> 's) \<Rightarrow> 's \<Rightarrow> (exn + 'a) \<times> 's" where
  "retry 0 f s = (Inl RetryError, s)"
| "retry (Suc n) f s =
     (case f s of
        (Inr v, s') \<Rightarrow> (Inr v, s')
      | (Inl e, s') \<Rightarrow> retry n f s')"

section \<open>Hosted service\<close>

text \<open>
  The hosted model is outside the repository. It is a function from the number of
  requests made so far and the request to the outcome of that request, so that a
  service may fail on one request and answer the next. A call appends the request
  to the record of requests made.
\<close>

type_synonym ('q, 'r) service = "nat \<Rightarrow> 'q \<Rightarrow> exn + 'r"

definition call_service :: "('q, 'r) service \<Rightarrow> 'q \<Rightarrow> 'q list \<Rightarrow> (exn + 'r) \<times> 'q list" where
  "call_service svc request reqs = (svc (length reqs) request, reqs @ [request])"

section \<open>GoogleLLM\<close>

definition apology :: string where
  "apology = ''I apologize, but I encountered an error processing your request. Please try again.''"

text \<open>The body of \<^verbatim>\<open>GoogleLLM.generate\<close>: one request, and the apology when it raises.
  The request is the prompt with \<^verbatim>\<open>max_output_tokens\<close>.\<close>

definition generate_body ::
  "(string \<times> int, string) service \<Rightarrow> string \<Rightarrow> int \<Rightarrow> (string \<times> int) list
     \<Rightarrow> (exn + string) \<times> (string \<times> int) list" where
  "generate_body client prompt max_tokens reqs =
     (case call_service client (prompt, max_tokens) reqs of
        (Inr text, reqs') \<Rightarrow> (Inr text, reqs')
      | (Inl e, reqs') \<Rightarrow> (Inr apology, reqs'))"

definition generate ::
  "(string \<times> int, string) service \<Rightarrow> string \<Rightarrow> int \<Rightarrow> (string \<times> int) list
     \<Rightarrow> (exn + string) \<times> (string \<times> int) list" where
  "generate client prompt max_tokens = retry 3 (generate_body client prompt max_tokens)"

section \<open>GoogleEmbeddings\<close>

type_synonym embedding = "real list"

datatype task_type = Retrieval_document | Retrieval_query

type_synonym embed_request = "string \<times> task_type"

definition truncate_text :: "string \<Rightarrow> string" where
  "truncate_text text = (if length text > 2048 then py_slice_to text 2048 else text)"

definition zero_vector :: embedding where
  "zero_vector = replicate 768 0"

text \<open>The loop of \<^verbatim>\<open>embed_documents\<close>: a request per text, the zero vector for a
  text whose request raises. The one-second pause after every tenth text is left
  out.\<close>

fun embed_documents_loop ::
  "(embed_request, embedding) service \<Rightarrow> string list \<Rightarrow> embedding list \<Rightarrow> embed_request list
     \<Rightarrow> embedding list \<times> embed_request list" where
  "embed_documents_loop api [] embeddings reqs = (embeddings, reqs)"
| "embed_documents_loop api (text # texts) embeddings reqs =
     (case call_service api (truncate_text text, Retrieval_document) reqs of
        (Inr e, reqs') \<Rightarrow> embed_documents_loop api texts (embeddings @ [e]) reqs'
      | (Inl ex, reqs') \<Rightarrow> embed_documents_loop api texts (embeddings @ [zero_vector]) reqs')"

definition embed_documents_body ::
  "(embed_request, embedding) service \<Rightarrow> string list \<Rightarrow> embed_request list
     \<Rightarrow> (exn + embedding list) \<times> embed_request list" where
  "embed_documents_body api texts reqs =
     (case embed_documents_loop api texts [] reqs of
        (embeddings, reqs') \<Rightarrow> (Inr embeddings, reqs'))"

definition embed_documents ::
  "(embed_request, embedding) service \<Rightarrow> string list \<Rightarrow> embed_request list
     \<Rightarrow> (exn + embedding list) \<times> embed_request list" where
  "embed_documents api texts = retry 3 (embed_documents_body api texts)"

definition embed_query_body ::
  "(embed_request, embedding) service \<Rightarrow> string \<Rightarrow> embed_request list
     \<Rightarrow> (exn + embedding) \<times> embed_request list" where
  "embed_query_body api text reqs =
     (case call_service api (truncate_text text, Retrieval_query) reqs of
        (Inr e, reqs') \<Rightarrow> (Inr e, reqs')
      | (Inl ex, reqs') \<Rightarrow> (Inr zero_vector, reqs'))"

definition embed_query ::
  "(embed_request, embedding) service \<Rightarrow> string \<Rightarrow> embed_request list
     \<Rightarrow> (exn + embedding) \<times> embed_request list" where
  "embed_query api text = retry 3 (embed_query_body api text)"

section \<open>EmbeddingManager\<close>

text \<open>
  The manager owns the cache. The state also counts the calls the manager makes to
  its embedding model (\<^verbatim>\<open>embed_documents\<close> or \<^verbatim>\<open>embed_query\<close>) and holds the record of
  the requests that reached the hosted service. Python's built-in \<^verbatim>\<open>hash\<close> is the
  parameter \<open>h\<close>.
\<close>

record manager_state =
  cache :: "string \<rightharpoonup> embedding"
  model_calls :: nat
  api_log :: "embed_request list"

definition get_cache_key :: "(string \<Rightarrow> int) \<Rightarrow> string \<Rightarrow> string" where
  "get_cache_key h text = ''embed_'' @ str_int (h text)"

text \<open>The first loop of \<^verbatim>\<open>get_embeddings\<close>: the three lists it builds, for the texts
  from index \<open>i\<close> on.\<close>

fun check_cache ::
  "(string \<Rightarrow> int) \<Rightarrow> (string \<rightharpoonup> embedding) \<Rightarrow> nat \<Rightarrow> string list
     \<Rightarrow> embedding option list \<times> string list \<times> nat list" where
  "check_cache h c i [] = ([], [], [])"
| "check_cache h c i (text # texts) =
     (case check_cache h c (Suc i) texts of
        (embeddings, texts_to_embed, indices_to_embed) \<Rightarrow>
          (case c (get_cache_key h text) of
             Some e \<Rightarrow> (Some e # embeddings, texts_to_embed, indices_to_embed)
           | None \<Rightarrow> (None # embeddings, text # texts_to_embed, i # indices_to_embed)))"

text \<open>The second loop, over \<^verbatim>\<open>zip(indices_to_embed, new_embeddings)\<close>. Every index
  comes from \<^verbatim>\<open>enumerate(texts)\<close> and is in range.\<close>

fun store_new ::
  "(string \<Rightarrow> int) \<Rightarrow> string list \<Rightarrow> (nat \<times> embedding) list
     \<Rightarrow> (string \<rightharpoonup> embedding) \<Rightarrow> embedding option list
     \<Rightarrow> (string \<rightharpoonup> embedding) \<times> embedding option list" where
  "store_new h texts [] c embeddings = (c, embeddings)"
| "store_new h texts ((idx, new_embedding) # rest) c embeddings =
     store_new h texts rest
       (c(get_cache_key h (texts ! idx) \<mapsto> new_embedding))
       (embeddings[idx := Some new_embedding])"

definition get_embeddings ::
  "(string \<Rightarrow> int) \<Rightarrow> (embed_request, embedding) service \<Rightarrow> string list \<Rightarrow> bool
     \<Rightarrow> manager_state \<Rightarrow> (exn + embedding option list) \<times> manager_state" where
  "get_embeddings h api texts use_cache s =
     (if \<not> use_cache then
        (case embed_documents api texts (api_log s) of
           (Inl ex, reqs') \<Rightarrow>
             (Inl ex, s\<lparr>model_calls := model_calls s + 1, api_log := reqs'\<rparr>)
         | (Inr embeddings, reqs') \<Rightarrow>
             (Inr (map Some embeddings),
              s\<lparr>model_calls := model_calls s + 1, api_log := reqs'\<rparr>))
      else
        (case check_cache h (cache s) 0 texts of
           (embeddings, texts_to_embed, indices_to_embed) \<Rightarrow>
             if texts_to_embed \<noteq> [] then
               (case embed_documents api texts_to_embed (api_log s) of
                  (Inl ex, reqs') \<Rightarrow>
                    (Inl ex, s\<lparr>model_calls := model_calls s + 1, api_log := reqs'\<rparr>)
                | (Inr new_embeddings, reqs') \<Rightarrow>
                    (case store_new h texts (zip indices_to_embed new_embeddings)
                            (cache s) embeddings of
                       (c', embeddings') \<Rightarrow>
                         (Inr embeddings',
                          s\<lparr>cache := c', model_calls := model_calls s + 1,
                            api_log := reqs'\<rparr>)))
             else (Inr embeddings, s)))"

definition get_query_embedding ::
  "(string \<Rightarrow> int) \<Rightarrow> (embed_request, embedding) service \<Rightarrow> string \<Rightarrow> bool
     \<Rightarrow> manager_state \<Rightarrow> (exn + embedding) \<times> manager_state" where
  "get_query_embedding h api query_text use_cache s =
     (if \<not> use_cache then
        (case embed_query api query_text (api_log s) of
           (r, reqs') \<Rightarrow> (r, s\<lparr>model_calls := model_calls s + 1, api_log := reqs'\<rparr>))
      else
        (case cache s (get_cache_key h query_text) of
           Some e \<Rightarrow> (Inr e, s)
         | None \<Rightarrow>
             (case embed_query api query_text (api_log s) of
                (Inl ex, reqs') \<Rightarrow>
                  (Inl ex, s\<lparr>model_calls := model_calls s + 1, api_log := reqs'\<rparr>)
              | (Inr e, reqs') \<Rightarrow>
                  (Inr e,
                   s\<lparr>cache := (cache s)(get_cache_key h query_text \<mapsto> e),
                     model_calls := model_calls s + 1, api_log := reqs'\<rparr>))))"

section \<open>Settings\<close>

text \<open>The two fields of \<^verbatim>\<open>Settings\<close> that the query path reads, with their defaults.\<close>

record settings =
  similarity_threshold :: real
  max_context_length :: int

definition default_settings :: settings where
  "default_settings = \<lparr>similarity_threshold = 7 / 10, max_context_length = 4000\<rparr>"

section \<open>VectorStore\<close>

text \<open>
  \<^verbatim>\<open>threshold or settings.similarity_threshold\<close>: the left operand when it is truthy,
  the right operand otherwise. \<^verbatim>\<open>None\<close> and \<^verbatim>\<open>0.0\<close> are the falsy values of an
  optional float.
\<close>

definition threshold_or :: "real option \<Rightarrow> real \<Rightarrow> real" where
  "threshold_or threshold dflt =
     (case threshold of
        None \<Rightarrow> dflt
      | Some t \<Rightarrow> if t = 0 then dflt else t)"

text \<open>
  \<^verbatim>\<open>VectorStore.similarity_search\<close>. The Chroma store is outside the repository:
  \<open>store query k\<close> is the outcome of \<^verbatim>\<open>similarity_search_with_score(query, k=k)\<close>.
\<close>

definition similarity_search ::
  "settings \<Rightarrow> (string \<Rightarrow> int \<Rightarrow> exn + scored list) \<Rightarrow> string \<Rightarrow> int \<Rightarrow> real option
     \<Rightarrow> scored list" where
  "similarity_search cfg store query_text k threshold =
     (let threshold' = threshold_or threshold (similarity_threshold cfg) in
      case store query_text k of
        Inl e \<Rightarrow> []
      | Inr results \<Rightarrow>
          if threshold' \<noteq> 0
          then filter (\<lambda>(doc, score). score \<ge> threshold') results
          else results)"

section \<open>RAGPipeline helpers\<close>

text \<open>\<^verbatim>\<open>doc.metadata.get('source', 'Unknown')\<close>.\<close>

definition source_label :: "document \<Rightarrow> string" where
  "source_label doc = (case metadata doc ''source'' of Some s \<Rightarrow> s | None \<Rightarrow> ''Unknown'')"

text \<open>The f-string appended to \<^verbatim>\<open>context_parts\<close>.\<close>

definition context_entry :: "document \<Rightarrow> string \<Rightarrow> string" where
  "context_entry doc doc_text = ''Source: '' @ source_label doc @ ''\<newline>'' @ doc_text"

text \<open>The loop of \<^verbatim>\<open>_prepare_context\<close> with its two variables; \<^verbatim>\<open>break\<close> returns the
  parts collected so far.\<close>

fun context_loop :: "int \<Rightarrow> scored list \<Rightarrow> string list \<Rightarrow> int \<Rightarrow> string list" where
  "context_loop max_length [] context_parts current_length = context_parts"
| "context_loop max_length ((doc, score) # rest) context_parts current_length =
     (let doc_text = page_content doc in
      if current_length + int (length doc_text) > max_length then
        (let remaining_length = max_length - current_length in
         if remaining_length > 100
         then context_parts @ [context_entry doc (py_slice_to doc_text remaining_length @ ''...'')]
         else context_parts)
      else context_loop max_length rest
             (context_parts @ [context_entry doc doc_text])
             (current_length + int (length doc_text)))"

definition prepare_context :: "int \<Rightarrow> scored list \<Rightarrow> string" where
  "prepare_context max_length retrieved_docs =
     join ''\<newline>\<newline>'' (context_loop max_length retrieved_docs [] 0)"

definition calculate_confidence :: "float_arith \<Rightarrow> scored list \<Rightarrow> real" where
  "calculate_confidence fl retrieved_docs =
     (if retrieved_docs = [] then 0
      else
        (let avg_score =
               float_div fl (float_sum fl (map snd retrieved_docs))
                 (real (length retrieved_docs));
             confidence = py_min 1 (py_max 0 avg_score)
         in py_round confidence 2))"

text \<open>The loop of \<^verbatim>\<open>_format_sources\<close> over \<^verbatim>\<open>enumerate(retrieved_docs)\<close>, from index
  \<open>i\<close> on.\<close>

fun format_sources_from :: "nat \<Rightarrow> scored list \<Rightarrow> source_info list" where
  "format_sources_from i [] = []"
| "format_sources_from i ((doc, score) # rest) =
     \<lparr>source_id = int i + 1,
      content =
        (if length (page_content doc) > 200
         then py_slice_to (page_content doc) 200 @ ''...''
         else page_content doc),
      source_metadata = metadata doc,
      similarity_score = py_round score 3\<rparr>
     # format_sources_from (Suc i) rest"

definition format_sources :: "scored list \<Rightarrow> source_info list" where
  "format_sources retrieved_docs = format_sources_from 0 retrieved_docs"

text \<open>The prompt of \<^verbatim>\<open>_generate_answer\<close>.\<close>

definition answer_prompt :: "string \<Rightarrow> string \<Rightarrow> string" where
  "answer_prompt question context =
     ''You are an expert maintenance advisor for commercial trucking fleets. ''
     @ ''Use the provided context to answer the user's question accurately and helpfully.''
     @ ''\<newline>\<newline>Context:\<newline>'' @ context
     @ ''\<newline>\<newline>Question: '' @ question
     @ ''\<newline>\<newline>Instructions:\<newline>''
     @ ''- Provide a detailed, practical answer based on the context\<newline>''
     @ ''- Focus on actionable maintenance advice\<newline>''
     @ ''- Include specific procedures, costs, or timeframes when available\<newline>''
     @ ''- If the question relates to safety or compliance, emphasize those aspects\<newline>''
     @ ''- If the context doesn't contain enough information, say so clearly\<newline>''
     @ ''- Cite sources when referencing specific information\<newline>''
     @ ''\<newline>Answer:''"

text \<open>\<^verbatim>\<open>_generate_answer\<close>: the language model is the collaborator \<open>llm_generate\<close>,
  called with the prompt and \<^verbatim>\<open>max_tokens=1000\<close>.\<close>

definition generate_answer ::
  "(string \<Rightarrow> int \<Rightarrow> exn + string) \<Rightarrow> string \<Rightarrow> string \<Rightarrow> exn + string" where
  "generate_answer llm_generate question context =
     llm_generate (answer_prompt question context) 1000"

section \<open>RAGPipeline.query\<close>

definition no_match_response :: response where
  "no_match_response =
     \<lparr>answer = ''I couldn't find relevant information to answer your question. ''
                @ ''Please try rephrasing or asking about a different topic.'',
      sources = [],
      confidence = 0\<rparr>"

definition error_response :: response where
  "error_response =
     \<lparr>answer = ''I encountered an error while processing your question. Please try again.'',
      sources = [],
      confidence = 0\<rparr>"

text \<open>The steps that \<^verbatim>\<open>query\<close> calls; the second component of its result lists the
  ones it has called, in order.\<close>

datatype call =
  SimilaritySearch | PrepareContext | GenerateAnswer | CalculateConfidence | FormatSources

text \<open>
  The \<^verbatim>\<open>try\<close> block of \<^verbatim>\<open>query\<close>, for any behaviour of the five steps it calls: each
  step returns a value or raises, and a step that raises ends the block.
\<close>

definition query_try ::
  "(string \<Rightarrow> int \<Rightarrow> exn + scored list) \<Rightarrow> (scored list \<Rightarrow> exn + string)
     \<Rightarrow> (string \<Rightarrow> string \<Rightarrow> exn + string) \<Rightarrow> (scored list \<Rightarrow> exn + real)
     \<Rightarrow> (scored list \<Rightarrow> exn + source_info list)
     \<Rightarrow> string \<Rightarrow> int \<Rightarrow> bool \<Rightarrow> (exn + response) \<times> call list" where
  "query_try search prepare gen conf fmt question k include_sources =
     (case search question k of
        Inl e \<Rightarrow> (Inl e, [SimilaritySearch])
      | Inr retrieved_docs \<Rightarrow>
          if retrieved_docs = [] then (Inr no_match_response, [SimilaritySearch])
          else
            (case prepare retrieved_docs of
               Inl e \<Rightarrow> (Inl e, [SimilaritySearch, PrepareContext])
             | Inr context \<Rightarrow>
                 (case gen question context of
                    Inl e \<Rightarrow> (Inl e, [SimilaritySearch, PrepareContext, GenerateAnswer])
                  | Inr text \<Rightarrow>
                      (case conf retrieved_docs of
                         Inl e \<Rightarrow>
                           (Inl e,
                            [SimilaritySearch, PrepareContext, GenerateAnswer,
                             CalculateConfidence])
                       | Inr c \<Rightarrow>
                           (let response = \<lparr>answer = text, sources = [], confidence = c\<rparr> in
                            if include_sources then
                              (case fmt retrieved_docs of
                                 Inl e \<Rightarrow>
                                   (Inl e,
                                    [SimilaritySearch, PrepareContext, GenerateAnswer,
                                     CalculateConfidence, FormatSources])
                               | Inr srcs \<Rightarrow>
                                   (Inr (response\<lparr>sources := srcs\<rparr>),
                                    [SimilaritySearch, PrepareContext, GenerateAnswer,
                                     CalculateConfidence, FormatSources]))
                            else
                              (Inr response,
                               [SimilaritySearch, PrepareContext, GenerateAnswer,
                                CalculateConfidence]))))))"

text \<open>\<^verbatim>\<open>try: ... except Exception: return\<close> the error response.\<close>

definition query_with ::
  "(string \<Rightarrow> int \<Rightarrow> exn + scored list) \<Rightarrow> (scored list \<Rightarrow> exn + string)
     \<Rightarrow> (string \<Rightarrow> string \<Rightarrow> exn + string) \<Rightarrow> (scored list \<Rightarrow> exn + real)
     \<Rightarrow> (scored list \<Rightarrow> exn + source_info list)
     \<Rightarrow> string \<Rightarrow> int \<Rightarrow> bool \<Rightarrow> response \<times> call list" where
  "query_with search prepare gen conf fmt question k include_sources =
     (case query_try search prepare gen conf fmt question k include_sources of
        (Inr response, calls) \<Rightarrow> (response, calls)
      | (Inl e, calls) \<Rightarrow> (error_response, calls))"

text \<open>
  \<^verbatim>\<open>RAGPipeline.query\<close>: the steps are the pipeline's own methods, which return a
  value on every input, the vector store's search and the language model's
  \<^verbatim>\<open>generate\<close>.
\<close>

definition query ::
  "float_arith \<Rightarrow> (string \<Rightarrow> int \<Rightarrow> exn + scored list) \<Rightarrow> (string \<Rightarrow> int \<Rightarrow> exn + string)
     \<Rightarrow> int \<Rightarrow> string \<Rightarrow> int \<Rightarrow> bool \<Rightarrow> response \<times> call list" where
  "query fl search llm_generate max_length question k include_sources =
     query_with search
       (\<lambda>docs. Inr (prepare_context max_length docs))
       (generate_answer llm_generate)
       (\<lambda>docs. Inr (calculate_confidence fl docs))
       (\<lambda>docs. Inr (format_sources docs))
       question k include_sources"

section \<open>The specification's vocabulary\<close>

text \<open>The arithmetic mean, the clamp to an interval and what it means for \<open>r\<close> to be
  \<open>x\<close> rounded to \<open>n\<close> decimals: \<open>r\<close> is a multiple of \<open>10\<^sup>-\<^sup>n\<close> and lies within half
  a unit of the last decimal from \<open>x\<close>.\<close>

definition mean :: "real list \<Rightarrow> real" where
  "mean xs = sum_list xs / real (length xs)"

text \<open>The mean as floating point computes it: the float sum divided by the number of
  items.\<close>

definition float_mean :: "float_arith \<Rightarrow> real list \<Rightarrow> real" where
  "float_mean fl xs = float_div fl (float_sum fl xs) (real (length xs))"

definition clamp :: "real \<Rightarrow> real \<Rightarrow> real \<Rightarrow> real" where
  "clamp lo hi x = (if x < lo then lo else if hi < x then hi else x)"

definition rounded_to_decimals :: "nat \<Rightarrow> real \<Rightarrow> real \<Rightarrow> bool" where
  "rounded_to_decimals n x r \<longleftrightarrow>
     of_int \<lfloor>r * 10 ^ n\<rfloor> = r * 10 ^ n \<and> \<bar>r - x\<bar> * (2 * 10 ^ n) \<le> 1"

section \<open>Double precision\<close>

text \<open>
  The floats of CPython are IEEE 754 doubles: 53 significant bits, results rounded
  to the nearest double with ties going to the even significand. \<open>binary_exponent\<close>
  finds the \<open>e\<close> with \<open>2\<^sup>e \<le> x < 2\<^sup>e\<^sup>+\<^sup>1\<close> for a positive \<open>x\<close> in at most \<open>n\<close> steps;
  2200 steps cover the range of the doubles. Below \<open>2\<^sup>-\<^sup>1\<^sup>0\<^sup>2\<^sup>2\<close> the spacing of the
  doubles stays \<open>2\<^sup>-\<^sup>1\<^sup>0\<^sup>7\<^sup>4\<close>; overflow to infinity is outside the model.
\<close>

fun binary_exponent :: "nat \<Rightarrow> real \<Rightarrow> int" where
  "binary_exponent 0 x = 0"
| "binary_exponent (Suc n) x =
     (if 2 \<le> x then binary_exponent n (x / 2) + 1
      else if x < 1 then binary_exponent n (x * 2) - 1
      else 0)"

definition pow2 :: "int \<Rightarrow> real" where
  "pow2 e = (if 0 \<le> e then 2 ^ nat e else 1 / 2 ^ nat (- e))"

definition double_round :: "real \<Rightarrow> real" where
  "double_round x =
     (if x = 0 then 0
      else
        (let e = max (binary_exponent 2200 \<bar>x\<bar>) (- 1022);
             ulp = pow2 (e - 52)
         in of_int (round_half_even (x / ulp)) * ulp))"

text \<open>
  The float sum that adds the items one after the other, starting from 0, and the
  float division. On two items this is the value of \<^verbatim>\<open>sum\<close> in every version of
  CPython; on longer sequences the versions from 3.12 on add a correction term, which
  is why the model takes the sum as a parameter and uses this one in examples only.
\<close>

definition double_sum :: "real list \<Rightarrow> real" where
  "double_sum xs = foldl (\<lambda>acc x. double_round (acc + x)) 0 xs"

definition double_div :: "real \<Rightarrow> real \<Rightarrow> real" where
  "double_div x y = double_round (x / y)"

definition double_arith :: float_arith where
  "double_arith = \<lparr>float_sum = double_sum, float_div = double_div\<rparr>"

text \<open>The doubles that the literals \<^verbatim>\<open>0.6\<close>, \<^verbatim>\<open>0.8\<close>, \<^verbatim>\<open>0.9\<close> and \<^verbatim>\<open>0.95\<close> denote.\<close>

definition d06 :: real where
  "d06 = 5404319552844595 / 9007199254740992"

definition d08 :: real where
  "d08 = 3602879701896397 / 4503599627370496"

definition d09 :: real where
  "d09 = 8106479329266893 / 9007199254740992"

definition d095 :: real where
  "d095 = 4278419646001971 / 4503599627370496"

section \<open>Example inputs\<close>

text \<open>The two documents of the repository's confidence test, a store that returns
  them with the scores 0.8 and 0.6, and a language model that always answers.\<close>

definition content1 :: document where
  "content1 = \<lparr>page_content = ''content1'', metadata = Map.empty\<rparr>"

definition content2 :: document where
  "content2 = \<lparr>page_content = ''content2'', metadata = Map.empty\<rparr>"

definition two_results :: "string \<Rightarrow> int \<Rightarrow> exn + scored list" where
  "two_results q k = Inr [(content1, 8 / 10), (content2, 6 / 10)]"

definition fixed_llm :: "string \<Rightarrow> int \<Rightarrow> exn + string" where
  "fixed_llm prompt max_tokens = Inr ''Check the coolant level.''"

text \<open>The same two documents with the scores as the doubles 0.8 and 0.6, with the
  scores as the doubles 0.9 and 0.95, and a language model that raises.\<close>

definition scores_08_06 :: "string \<Rightarrow> int \<Rightarrow> exn + scored list" where
  "scores_08_06 q k = Inr [(content1, d08), (content2, d06)]"

definition scores_09_095 :: "string \<Rightarrow> int \<Rightarrow> exn + scored list" where
  "scores_09_095 q k = Inr [(content1, d09), (content2, d095)]"

definition raising_llm :: "string \<Rightarrow> int \<Rightarrow> exn + string" where
  "raising_llm prompt max_tokens = Inl (Exception ''model unavailable'')"

text \<open>A store with no match, a store that raises, a store whose only result scores 0,
  and a store with a second document of 201 characters that names its source.\<close>

definition no_results :: "string \<Rightarrow> int \<Rightarrow> exn + scored list" where
  "no_results q k = Inr []"

definition failing_search :: "string \<Rightarrow> int \<Rightarrow> exn + scored list" where
  "failing_search q k = Inl (Exception ''store unavailable'')"

definition zero_score_store :: "string \<Rightarrow> int \<Rightarrow> exn + scored list" where
  "zero_score_store q k = Inr [(content1, 0)]"

text \<open>A store with one result at the default threshold 0.7 and one just below it.\<close>

definition boundary_results :: "string \<Rightarrow> int \<Rightarrow> exn + scored list" where
  "boundary_results q k = Inr [(content1, 7 / 10), (content2, 69 / 100)]"

definition long_doc :: document where
  "long_doc =
     \<lparr>page_content = replicate 201 CHR ''x'', metadata = [''source'' \<mapsto> ''manual.pdf'']\<rparr>"

definition ranked_results :: "string \<Rightarrow> int \<Rightarrow> exn + scored list" where
  "ranked_results q k = Inr [(content1, 82 / 100), (long_doc, 8125 / 10000)]"

text \<open>Documents of 10, 101 and 150 characters without a source entry.\<close>

definition ten_chars :: document where
  "ten_chars = \<lparr>page_content = ''0123456789'', metadata = Map.empty\<rparr>"

definition chars_101 :: document where
  "chars_101 = \<lparr>page_content = replicate 101 CHR ''a'', metadata = Map.empty\<rparr>"

definition chars_150 :: document where
  "chars_150 = \<lparr>page_content = replicate 150 CHR ''b'', metadata = Map.empty\<rparr>"

text \<open>A language model and an embedding service whose first request fails and whose
  later requests succeed, an embedding service that always succeeds, a hash for
  the examples and a manager that has cached nothing.\<close>

definition fails_once_llm :: "(string \<times> int, string) service" where
  "fails_once_llm n request =
     (if n = 0 then Inl (Exception ''503 unavailable'') else Inr ''Replace the thermostat.'')"

definition fails_once_embedder :: "(embed_request, embedding) service" where
  "fails_once_embedder n request =
     (if n = 0 then Inl (Exception ''503 unavailable'') else Inr [1 / 10, 2 / 10, 3 / 10])"

definition fixed_embedder :: "(embed_request, embedding) service" where
  "fixed_embedder n request = Inr [1 / 10, 2 / 10, 3 / 10]"

definition example_hash :: "string \<Rightarrow> int" where
  "example_hash text = int (length text)"

definition fresh_manager :: manager_state where
  "fresh_manager = \<lparr>cache = Map.empty, model_calls = 0, api_log = []\<rparr>"

section \<open>Measures of the assembled context\<close>

text \<open>
  The number of content characters of a sequence of results, the entries that the
  context assembler makes of results it takes whole, the characters that the source
  line adds to an entry, and the characters that source lines and separators add
  to the whole context: the entries of the context come from the first results, one
  each, and a separator stands between two entries.
\<close>

definition total_length :: "scored list \<Rightarrow> int" where
  "total_length docs = sum_list (map (\<lambda>(doc, score). int (length (page_content doc))) docs)"

definition full_entries :: "scored list \<Rightarrow> string list" where
  "full_entries docs = map (\<lambda>(doc, score). context_entry doc (page_content doc)) docs"

definition entry_overhead :: "document \<Rightarrow> nat" where
  "entry_overhead doc = length (''Source: '' @ source_label doc @ ''\<newline>'')"

definition context_overhead :: "int \<Rightarrow> scored list \<Rightarrow> nat" where
  "context_overhead max_length docs =
     (let n = length (context_loop max_length docs [] 0) in
      sum_list (map (\<lambda>(doc, score). entry_overhead doc) (take n docs))
      + length ''\<newline>\<newline>'' * (n - 1))"

section \<open>Rounding\<close>

lemma round_half_even_near: "\<bar>of_int (round_half_even x) - x\<bar> \<le> 1 / 2"
proof -
  have "of_int \<lfloor>x\<rfloor> \<le> x" "x < of_int \<lfloor>x\<rfloor> + 1" by linarith+
  then show ?thesis
    by (auto simp: round_half_even_def Let_def)
qed

lemma py_round_rounded: "rounded_to_decimals n x (py_round x n)"
proof -
  have "\<bar>py_round x n - x\<bar> * 10 ^ n = \<bar>(py_round x n - x) * 10 ^ n\<bar>"
    by (simp add: abs_mult)
  also have "(py_round x n - x) * 10 ^ n = of_int (round_half_even (x * 10 ^ n)) - x * 10 ^ n"
    by (simp add: py_round_def algebra_simps)
  finally have "\<bar>py_round x n - x\<bar> * 10 ^ n \<le> 1 / 2"
    using round_half_even_near [of "x * 10 ^ n"] by simp
  then show ?thesis
    by (simp add: rounded_to_decimals_def py_round_def)
qed

section \<open>The response of a query\<close>

lemma py_clamp: "py_min 1 (py_max 0 x) = clamp 0 1 x"
  by (simp add: py_min_def py_max_def clamp_def)

lemma calculate_confidence_eq:
  "docs \<noteq> [] \<Longrightarrow>
   calculate_confidence fl docs = py_round (clamp 0 1 (float_mean fl (map snd docs))) 2"
  by (simp add: calculate_confidence_def Let_def py_clamp float_mean_def)

text \<open>When retrieval finds something and the language model answers, the response is
  built from the three helpers.\<close>

lemma query_success:
  assumes "search question k = Inr docs" "docs \<noteq> []"
    and "llm_generate (answer_prompt question (prepare_context max_length docs)) 1000 = Inr text"
  shows "query fl search llm_generate max_length question k include_sources =
      (\<lparr>answer = text, sources = (if include_sources then format_sources docs else []),
        confidence = calculate_confidence fl docs\<rparr>,
       if include_sources
       then [SimilaritySearch, PrepareContext, GenerateAnswer, CalculateConfidence, FormatSources]
       else [SimilaritySearch, PrepareContext, GenerateAnswer, CalculateConfidence])"
  using assms by (simp add: query_def query_with_def query_try_def generate_answer_def Let_def)

subsection \<open>Evaluating the double arithmetic\<close>

lemma binary_exponent_numeral:
  "binary_exponent (numeral n) x =
     (if 2 \<le> x then binary_exponent (pred_numeral n) (x / 2) + 1
      else if x < 1 then binary_exponent (pred_numeral n) (x * 2) - 1
      else 0)"
  by (simp add: numeral_eq_Suc)

lemma double_mean_09_095:
  "float_mean double_arith [d09, d095] = 4165829655317709 / 4503599627370496"
  by (simp add: float_mean_def double_arith_def double_sum_def double_div_def double_round_def
        d09_def d095_def binary_exponent_numeral pow2_def round_half_even_def Let_def)

lemma double_mean_08_06:
  "float_mean double_arith [d08, d06] = 3152519739159347 / 4503599627370496"
  by (simp add: float_mean_def double_arith_def double_sum_def double_div_def double_round_def
        d08_def d06_def binary_exponent_numeral pow2_def round_half_even_def Let_def)

text \<open>
  C1, as stated, fails in two ways. The mean is computed in floating point: for the
  scores 0.9 and 0.95 the float sum is the double 1.85, above the exact sum, the
  float mean is the double 0.925, above the exact mean, and the confidence is 0.93,
  while the exact mean rounds to 0.92. And a language model that raises leaves the
  confidence at 0 although results were retrieved.
\<close>

theorem query_confidence_counterexample:
  "confidence (fst (query double_arith scores_09_095 fixed_llm 4000 ''q'' 5 True))
     \<noteq> py_round (clamp 0 1 (mean [d09, d095])) 2
   \<and> confidence (fst (query double_arith scores_09_095 fixed_llm 4000 ''q'' 5 True)) = 93 / 100
   \<and> py_round (clamp 0 1 (mean [d09, d095])) 2 = 92 / 100
   \<and> confidence (fst (query double_arith scores_08_06 raising_llm 4000 ''q'' 5 True))
     \<noteq> py_round (clamp 0 1 (mean [d08, d06])) 2
   \<and> confidence (fst (query double_arith scores_08_06 raising_llm 4000 ''q'' 5 True)) = 0
   \<and> py_round (clamp 0 1 (mean [d08, d06])) 2 = 7 / 10"
proof -
  have float: "confidence (fst (query double_arith scores_09_095 fixed_llm 4000 ''q'' 5 True))
      = 93 / 100"
    by (simp add: query_success [where docs = "[(content1, d09), (content2, d095)]"]
          scores_09_095_def fixed_llm_def calculate_confidence_eq double_mean_09_095
          clamp_def py_round_def round_half_even_def)
  have exact: "py_round (clamp 0 1 (mean [d09, d095])) 2 = 92 / 100"
    by (simp add: mean_def d09_def d095_def clamp_def py_round_def round_half_even_def)
  have raised:
    "confidence (fst (query double_arith scores_08_06 raising_llm 4000 ''q'' 5 True)) = 0"
    by (simp add: query_def query_with_def query_try_def generate_answer_def
          scores_08_06_def raising_llm_def error_response_def)
  have expected: "py_round (clamp 0 1 (mean [d08, d06])) 2 = 7 / 10"
    by (simp add: mean_def d08_def d06_def clamp_def py_round_def round_half_even_def)
  show ?thesis
    by (simp add: float exact raised expected)
qed

text \<open>
  C1, amended. For a non-empty sequence of retrieved results and a language model
  that returns a text, the confidence of the query response is the mean of the
  scores as floating point computes it (the float sum divided by the number of
  results), clamped to \<open>[0, 1]\<close> and rounded to two decimals: it is Python's
  \<^verbatim>\<open>round\<close> of the clamped float mean, hence a multiple of 0.01 within 0.005 of it.
\<close>

theorem query_confidence:
  assumes "search question k = Inr retrieved_docs" and "retrieved_docs \<noteq> []"
    and "llm_generate (answer_prompt question (prepare_context max_length retrieved_docs)) 1000
           = Inr text"
  shows "confidence (fst (query fl search llm_generate max_length question k include_sources))
           = py_round (clamp 0 1 (float_mean fl (map snd retrieved_docs))) 2
         \<and> rounded_to_decimals 2 (clamp 0 1 (float_mean fl (map snd retrieved_docs)))
             (confidence (fst (query fl search llm_generate max_length question k include_sources)))"
  using assms by (simp add: query_success calculate_confidence_eq py_round_rounded)

text \<open>The scores 0.8 and 0.6 give the confidence 0.70.\<close>

theorem query_confidence_witness:
  "confidence (fst (query double_arith scores_08_06 fixed_llm 4000 ''q'' 5 True)) = 7 / 10"
  using query_confidence [of scores_08_06 "''q''" 5 "[(content1, d08), (content2, d06)]"
          fixed_llm 4000 "''Check the coolant level.''" double_arith True]
  by (simp add: scores_08_06_def fixed_llm_def double_mean_08_06 clamp_def py_round_def
        round_half_even_def)

text \<open>
  C2. When retrieval returns the empty sequence, the response has the fixed
  "no relevant information" answer, no sources and confidence 0; the search is the
  only step called, so neither the context assembly nor the answer generator runs.
\<close>

theorem query_empty_retrieval:
  assumes "search question k = Inr []"
  shows "query fl search llm_generate max_length question k include_sources =
           (\<lparr>answer = ''I couldn't find relevant information to answer your question. ''
                      @ ''Please try rephrasing or asking about a different topic.'',
             sources = [], confidence = 0\<rparr>,
            [SimilaritySearch])"
  using assms
  by (simp add: query_def query_with_def query_try_def no_match_response_def)

theorem query_empty_retrieval_witness:
  "query double_arith no_results fixed_llm 4000 ''Why is my engine overheating?'' 5 True =
     (\<lparr>answer = ''I couldn't find relevant information to answer your question. ''
                @ ''Please try rephrasing or asking about a different topic.'',
       sources = [], confidence = 0\<rparr>,
      [SimilaritySearch])"
  using query_empty_retrieval
          [of no_results "''Why is my engine overheating?''" 5 double_arith fixed_llm 4000 True]
  by (simp add: no_results_def)

subsection \<open>Exceptions\<close>

text \<open>Each of the five steps ends the \<^verbatim>\<open>try\<close> block with its exception when it raises.\<close>

lemma query_try_search_raises:
  "search question k = Inl e \<Longrightarrow> fst (query_try search prepare gen conf fmt question k inc) = Inl e"
  by (simp add: query_try_def)

lemma query_try_prepare_raises:
  "search question k = Inr docs \<Longrightarrow> docs \<noteq> [] \<Longrightarrow> prepare docs = Inl e
   \<Longrightarrow> fst (query_try search prepare gen conf fmt question k inc) = Inl e"
  by (simp add: query_try_def)

lemma query_try_generate_raises:
  "search question k = Inr docs \<Longrightarrow> docs \<noteq> [] \<Longrightarrow> prepare docs = Inr context
   \<Longrightarrow> gen question context = Inl e
   \<Longrightarrow> fst (query_try search prepare gen conf fmt question k inc) = Inl e"
  by (simp add: query_try_def)

lemma query_try_confidence_raises:
  "search question k = Inr docs \<Longrightarrow> docs \<noteq> [] \<Longrightarrow> prepare docs = Inr context
   \<Longrightarrow> gen question context = Inr text \<Longrightarrow> conf docs = Inl e
   \<Longrightarrow> fst (query_try search prepare gen conf fmt question k inc) = Inl e"
  by (simp add: query_try_def)

lemma query_try_format_raises:
  "search question k = Inr docs \<Longrightarrow> docs \<noteq> [] \<Longrightarrow> prepare docs = Inr context
   \<Longrightarrow> gen question context = Inr text \<Longrightarrow> conf docs = Inr c \<Longrightarrow> fmt docs = Inl e
   \<Longrightarrow> fst (query_try search prepare gen conf fmt question k True) = Inl e"
  by (simp add: query_try_def Let_def)

text \<open>For the pipeline's own steps, the two collaborators are the ones that can raise.\<close>

lemma query_collaborator_raises:
  assumes "search question k = Inl e \<or>
           (\<exists>docs. search question k = Inr docs \<and> docs \<noteq> [] \<and>
              llm_generate (answer_prompt question (prepare_context max_length docs)) 1000 = Inl e)"
  shows "fst (query fl search llm_generate max_length question k include_sources) = error_response"
  using assms
  by (auto simp: query_def query_with_def query_try_def generate_answer_def)

lemma query_with_catches:
  assumes "fst (query_try search prepare gen conf fmt question k include_sources) = Inl e"
  shows "fst (query_with search prepare gen conf fmt question k include_sources) = error_response"
  using assms
  by (cases "query_try search prepare gen conf fmt question k include_sources")
     (simp add: query_with_def)

text \<open>
  C4. \<^verbatim>\<open>query\<close> returns a response on every input, whatever its five steps do. When
  retrieval, context assembly, answer generation, the confidence computation or
  the packaging of the sources raises, the response is the fixed error text with no
  sources and confidence 0.
\<close>

theorem query_never_raises:
  assumes "search question k = Inl e
     \<or> (\<exists>docs. search question k = Inr docs \<and> docs \<noteq> [] \<and>
          (prepare docs = Inl e
           \<or> (\<exists>context. prepare docs = Inr context \<and>
                (gen question context = Inl e
                 \<or> (\<exists>text. gen question context = Inr text \<and>
                      (conf docs = Inl e
                       \<or> (\<exists>c. conf docs = Inr c \<and> include_sources \<and> fmt docs = Inl e)))))))"
  shows "fst (query_with search prepare gen conf fmt question k include_sources) =
           \<lparr>answer = ''I encountered an error while processing your question. Please try again.'',
            sources = [], confidence = 0\<rparr>"
proof -
  from assms have "fst (query_try search prepare gen conf fmt question k include_sources) = Inl e"
    by (auto simp: query_try_search_raises query_try_prepare_raises query_try_generate_raises
          query_try_confidence_raises query_try_format_raises)
  then show ?thesis
    by (simp add: query_with_catches error_response_def)
qed

text \<open>The pipeline with a store that raises.\<close>

theorem query_never_raises_witness:
  "fst (query double_arith failing_search fixed_llm 4000 ''q'' 5 True) =
     \<lparr>answer = ''I encountered an error while processing your question. Please try again.'',
      sources = [], confidence = 0\<rparr>"
  using query_never_raises [of failing_search "''q''" 5 "Exception ''store unavailable''"
         "\<lambda>docs. Inr (prepare_context 4000 docs)"
         "generate_answer fixed_llm" "\<lambda>docs. Inr (calculate_confidence double_arith docs)" True
         "\<lambda>docs. Inr (format_sources docs)"]
  by (simp add: query_def failing_search_def)

subsection \<open>Sources\<close>

lemma length_format_sources_from: "length (format_sources_from j docs) = length docs"
  by (induction docs arbitrary: j) auto

lemma format_sources_from_nth:
  "i < length docs \<Longrightarrow>
   format_sources_from j docs ! i =
     \<lparr>source_id = int (j + i) + 1,
      content =
        (if length (page_content (fst (docs ! i))) > 200
         then take 200 (page_content (fst (docs ! i))) @ ''...''
         else page_content (fst (docs ! i))),
      source_metadata = metadata (fst (docs ! i)),
      similarity_score = py_round (snd (docs ! i)) 3\<rparr>"
proof (induction docs arbitrary: i j)
  case Nil
  then show ?case by simp
next
  case (Cons d docs)
  obtain doc score where d: "d = (doc, score)" by (cases d)
  show ?case
  proof (cases i)
    case 0
    then show ?thesis by (simp add: d py_slice_to_def)
  next
    case (Suc i')
    with Cons.prems have "i' < length docs" by simp
    from Cons.IH [OF this, of "Suc j"] Suc show ?thesis by (simp add: d)
  qed
qed

text \<open>
  C8. With sources requested, the response lists one source per retrieved result, in
  retrieval order. The entry at position \<open>i\<close> (counted from 0) has the id \<open>i + 1\<close>,
  the metadata of the chunk, its score rounded to three decimals, and as content the
  first 200 characters of the chunk followed by \<^verbatim>\<open>...\<close> when the chunk is longer than
  200 characters, the whole chunk otherwise.
\<close>

theorem query_sources_entry:
  assumes "search question k = Inr retrieved_docs"
    and "llm_generate (answer_prompt question (prepare_context max_length retrieved_docs)) 1000
           = Inr text"
    and "i < length retrieved_docs"
  shows "length (sources (fst (query fl search llm_generate max_length question k True)))
           = length retrieved_docs
       \<and> sources (fst (query fl search llm_generate max_length question k True)) ! i =
           \<lparr>source_id = int i + 1,
            content =
              (if length (page_content (fst (retrieved_docs ! i))) > 200
               then take 200 (page_content (fst (retrieved_docs ! i))) @ ''...''
               else page_content (fst (retrieved_docs ! i))),
            source_metadata = metadata (fst (retrieved_docs ! i)),
            similarity_score = py_round (snd (retrieved_docs ! i)) 3\<rparr>
       \<and> rounded_to_decimals 3 (snd (retrieved_docs ! i))
           (similarity_score
              (sources (fst (query fl search llm_generate max_length question k True)) ! i))"
proof -
  from assms(3) have ne: "retrieved_docs \<noteq> []" by auto
  have q: "sources (fst (query fl search llm_generate max_length question k True))
             = format_sources_from 0 retrieved_docs"
    using assms(1) ne assms(2) by (simp add: query_success format_sources_def)
  show ?thesis
    unfolding q using assms(3)
    by (simp add: length_format_sources_from format_sources_from_nth py_round_rounded)
qed

theorem query_sources_entry_witness:
  "sources (fst (query double_arith ranked_results fixed_llm 4000 ''q'' 5 True)) ! 1 =
     \<lparr>source_id = 2, content = replicate 200 CHR ''x'' @ ''...'',
      source_metadata = [''source'' \<mapsto> ''manual.pdf''], similarity_score = 812 / 1000\<rparr>"
  using query_sources_entry [of ranked_results "''q''" 5
          "[(content1, 82 / 100), (long_doc, 8125 / 10000)]" fixed_llm 4000
          "''Check the coolant level.''" 1 double_arith]
  by (simp add: ranked_results_def fixed_llm_def long_doc_def py_round_def round_half_even_def)

section \<open>The score filter of the vector store\<close>

lemma similarity_search_filter:
  assumes "store query_text k = Inr results"
    and "threshold_or threshold (similarity_threshold cfg) \<noteq> 0"
  shows "similarity_search cfg store query_text k threshold =
           filter (\<lambda>(doc, score). threshold_or threshold (similarity_threshold cfg) \<le> score) results"
  using assms by (simp add: similarity_search_def Let_def)

text \<open>
  C5, as stated, fails for the threshold 0.0: it is replaced by the configured
  default 0.7, and a result that scores exactly 0.0 is discarded.
\<close>

theorem zero_threshold_counterexample:
  "(content1, 0) \<notin> set (similarity_search default_settings zero_score_store ''q'' 5 (Some 0))"
  by (simp add: similarity_search_def threshold_or_def default_settings_def zero_score_store_def)

text \<open>
  C5, amended. The filter is an inclusive lower bound at the effective threshold
  \<open>t\<close>: the passed threshold when one is given and is not zero, the configured
  default when no threshold or the threshold 0.0 is given. Whenever \<open>t\<close> is not zero,
  a result that scores exactly \<open>t\<close> is kept and a result that scores below \<open>t\<close> is
  discarded; the results kept are those that score \<open>t\<close> or more.
\<close>

theorem similarity_search_inclusive_bound:
  assumes "store query_text k = Inr results"
    and "(doc, score) \<in> set results"
    and "threshold = Some t \<and> t \<noteq> 0
         \<or> (threshold = None \<or> threshold = Some 0) \<and> t = similarity_threshold cfg \<and> t \<noteq> 0"
  shows "(score = t \<longrightarrow> (doc, score) \<in> set (similarity_search cfg store query_text k threshold))
       \<and> (score < t \<longrightarrow> (doc, score) \<notin> set (similarity_search cfg store query_text k threshold))
       \<and> ((doc, score) \<in> set (similarity_search cfg store query_text k threshold)
            \<longleftrightarrow> t \<le> score)"
proof -
  from assms(3) have "threshold_or threshold (similarity_threshold cfg) = t" and "t \<noteq> 0"
    by (auto simp: threshold_or_def)
  with assms(1,2) show ?thesis
    by (auto simp: similarity_search_filter)
qed

text \<open>A passed threshold of 0.6, below the default 0.7, keeps the result that scores
  0.6; with no threshold the default keeps the score 0.7 and discards 0.69.\<close>

theorem similarity_search_inclusive_bound_witness:
  "(content2, 6 / 10)
     \<in> set (similarity_search default_settings two_results ''q'' 5 (Some (6 / 10)))
   \<and> (content2, 6 / 10)
     \<notin> set (similarity_search default_settings two_results ''q'' 5 (Some (8 / 10)))
   \<and> (content1, 7 / 10) \<in> set (similarity_search default_settings boundary_results ''q'' 5 None)
   \<and> (content2, 69 / 100)
     \<notin> set (similarity_search default_settings boundary_results ''q'' 5 None)"
  using
    similarity_search_inclusive_bound [where store = two_results and query_text = "''q''"
      and k = 5 and results = "[(content1, 8 / 10), (content2, 6 / 10)]"
      and threshold = "Some (6 / 10)" and cfg = default_settings and t = "6 / 10"
      and doc = content2 and score = "6 / 10"]
    similarity_search_inclusive_bound [where store = two_results and query_text = "''q''"
      and k = 5 and results = "[(content1, 8 / 10), (content2, 6 / 10)]"
      and threshold = "Some (8 / 10)" and cfg = default_settings and t = "8 / 10"
      and doc = content2 and score = "6 / 10"]
    similarity_search_inclusive_bound [where store = boundary_results and query_text = "''q''"
      and k = 5 and results = "[(content1, 7 / 10), (content2, 69 / 100)]"
      and threshold = None and cfg = default_settings and t = "7 / 10"
      and doc = content1 and score = "7 / 10"]
    similarity_search_inclusive_bound [where store = boundary_results and query_text = "''q''"
      and k = 5 and results = "[(content1, 7 / 10), (content2, 69 / 100)]"
      and threshold = None and cfg = default_settings and t = "7 / 10"
      and doc = content2 and score = "69 / 100"]
  by (simp add: two_results_def boundary_results_def default_settings_def)

text \<open>
  C10. A search with the threshold 0.0 returns what the search with no threshold
  returns: the zero is replaced by the configured default, and unless that default is
  zero itself the results are filtered by it.
\<close>

theorem zero_threshold_is_unset:
  "similarity_search cfg store query_text k (Some 0) = similarity_search cfg store query_text k None
   \<and> threshold_or (Some 0) (similarity_threshold cfg) = similarity_threshold cfg
   \<and> (case store query_text k of
        Inl e \<Rightarrow> True
      | Inr results \<Rightarrow>
          similarity_threshold cfg = 0 \<or>
          similarity_search cfg store query_text k (Some 0)
            = filter (\<lambda>(doc, score). similarity_threshold cfg \<le> score) results)"
  by (simp add: similarity_search_def threshold_or_def Let_def split: sum.splits)

theorem zero_threshold_is_unset_witness:
  "similarity_search default_settings two_results ''q'' 5 (Some 0) = [(content1, 8 / 10)]
   \<and> similarity_search default_settings two_results ''q'' 5 None = [(content1, 8 / 10)]"
  using zero_threshold_is_unset [of default_settings two_results "''q''" 5]
  by (auto simp: two_results_def default_settings_def)

section \<open>The context assembler\<close>

lemma context_loop_acc:
  "context_loop L docs parts cur = parts @ context_loop L docs [] cur"
proof (induction docs arbitrary: parts cur)
  case Nil
  then show ?case by simp
next
  case (Cons d docs)
  obtain doc score where d: "d = (doc, score)" by (cases d)
  show ?case
    using Cons.IH [of "parts @ [context_entry doc (page_content doc)]"]
      Cons.IH [of "[context_entry doc (page_content doc)]"]
    by (simp add: d Let_def)
qed

lemma context_loop_Cons:
  "context_loop L ((doc, score) # rest) [] cur =
     (if cur + int (length (page_content doc)) > L then
        (if L - cur > 100
         then [context_entry doc (take (nat (L - cur)) (page_content doc) @ ''...'')]
         else [])
      else context_entry doc (page_content doc)
             # context_loop L rest [] (cur + int (length (page_content doc))))"
  using context_loop_acc [of L rest "[context_entry doc (page_content doc)]"]
  by (simp add: Let_def py_slice_to_def)

lemma length_join:
  "length (join sep xs) = sum_list (map length xs) + length sep * (length xs - 1)"
  by (induction sep xs rule: join.induct) simp_all

lemma length_context_entry:
  "length (context_entry doc text) = entry_overhead doc + length text"
  by (simp add: context_entry_def entry_overhead_def)

lemma length_context_loop_le: "length (context_loop L docs [] cur) \<le> length docs"
proof (induction docs arbitrary: cur)
  case Nil
  then show ?case by simp
next
  case (Cons d docs)
  obtain doc score where d: "d = (doc, score)" by (cases d)
  show ?case
    using Cons.IH [of "cur + int (length (page_content doc))"]
    unfolding d context_loop_Cons by simp
qed

lemma context_loop_size:
  "int (sum_list (map length (context_loop L docs [] cur)))
     \<le> max 0 (L - cur) + 3
        + int (sum_list (map (\<lambda>(doc, score). entry_overhead doc)
                 (take (length (context_loop L docs [] cur)) docs)))"
proof (induction docs arbitrary: cur)
  case Nil
  then show ?case by simp
next
  case (Cons d docs)
  obtain doc score where d: "d = (doc, score)" by (cases d)
  let ?l = "int (length (page_content doc))"
  show ?case
  proof (cases "cur + ?l > L")
    case True
    then show ?thesis
      unfolding d context_loop_Cons by (simp add: length_context_entry)
  next
    case False
    have "max 0 (L - (cur + ?l)) + ?l = max 0 (L - cur)"
      using False by simp
    with Cons.IH [of "cur + ?l"] False show ?thesis
      unfolding d context_loop_Cons by (simp add: length_context_entry)
  qed
qed

lemma total_length_nonneg: "0 \<le> total_length docs"
  by (induction docs) (auto simp: total_length_def)

lemma context_loop_fitting_prefix:
  "cur + total_length pre \<le> L \<Longrightarrow>
   context_loop L (pre @ rest) [] cur =
     full_entries pre @ context_loop L rest [] (cur + total_length pre)"
proof (induction pre arbitrary: cur)
  case Nil
  then show ?case by (simp add: full_entries_def total_length_def)
next
  case (Cons d pre)
  obtain doc score where d: "d = (doc, score)" by (cases d)
  let ?l = "int (length (page_content doc))"
  have tl: "total_length (d # pre) = ?l + total_length pre"
    by (simp add: d total_length_def)
  have nonneg: "0 \<le> total_length pre"
    by (rule total_length_nonneg)
  from Cons.prems tl nonneg have fits: "\<not> cur + ?l > L" by simp
  from Cons.prems tl have "cur + ?l + total_length pre \<le> L" by simp
  from Cons.IH [OF this] fits show ?case
    using tl by (simp add: d context_loop_Cons full_entries_def add.assoc del: context_loop.simps)
qed

text \<open>
  C3, as stated, fails: the source lines and the separators are not counted against
  \<open>max_length\<close>. One chunk of 10 characters with \<open>max_length = 10\<close> gives a context
  of 26 characters.
\<close>

theorem prepare_context_length_counterexample:
  "\<not> length (prepare_context 10 [(ten_chars, 9 / 10)]) \<le> 10 + length ''...''"
  by (simp add: prepare_context_def ten_chars_def context_entry_def source_label_def)

text \<open>
  C3, amended. The returned string is at most as long as \<open>max_length\<close> (or 0 if that
  is negative) plus one ellipsis marker plus the source lines and separators of the
  entries it contains.
\<close>

theorem prepare_context_length:
  "int (length (prepare_context max_length docs))
     \<le> max 0 max_length + int (length ''...'') + int (context_overhead max_length docs)"
  using context_loop_size [of max_length docs 0]
  by (simp add: prepare_context_def length_join context_overhead_def Let_def)

theorem prepare_context_length_witness:
  "length (prepare_context 10 [(ten_chars, 9 / 10)]) = 26
   \<and> context_overhead 10 [(ten_chars, 9 / 10)] = 16"
  using prepare_context_length [of 10 "[(ten_chars, 9 / 10)]"]
  by (simp add: prepare_context_def context_overhead_def entry_overhead_def ten_chars_def
        context_entry_def source_label_def)

text \<open>
  C9, as stated, fails when exactly 100 characters of headroom remain: a chunk of
  101 characters with \<open>max_length = 100\<close> does not fit, the headroom is 100, and
  nothing is added.
\<close>

theorem partial_entry_counterexample:
  "int (length (page_content chars_101)) > 100 - 0 \<and> (100::int) - 0 \<ge> 100
   \<and> context_loop 100 [(chars_101, 9 / 10)] [] 0 = []
   \<and> prepare_context 100 [(chars_101, 9 / 10)] = ''''"
  by (simp add: prepare_context_def chars_101_def)

text \<open>
  C9, amended. Let the results before a chunk fit as a whole and the chunk not fit.
  When more than 100 characters of headroom remain, the context ends with the
  prefix of that chunk that fills the headroom, followed by the ellipsis marker;
  when 100 characters or fewer remain, the context ends with the last result that
  fitted. Later results are not looked at.
\<close>

theorem partial_entry_rule:
  assumes "total_length pre \<le> max_length"
    and "total_length pre + int (length (page_content doc)) > max_length"
  shows "prepare_context max_length (pre @ (doc, score) # rest) =
           join ''\<newline>\<newline>''
             (full_entries pre @
              (if max_length - total_length pre > 100
               then [context_entry doc
                       (take (nat (max_length - total_length pre)) (page_content doc) @ ''...'')]
               else []))"
  using assms context_loop_fitting_prefix [of 0 pre max_length "(doc, score) # rest"]
  by (simp add: prepare_context_def context_loop_Cons del: context_loop.simps)

theorem partial_entry_rule_witness:
  "prepare_context 111 [(ten_chars, 9 / 10), (chars_150, 8 / 10), (chars_101, 7 / 10)] =
     ''Source: Unknown\<newline>0123456789\<newline>\<newline>Source: Unknown\<newline>''
     @ replicate 101 CHR ''b'' @ ''...''
   \<and> prepare_context 110 [(ten_chars, 9 / 10), (chars_150, 8 / 10), (chars_101, 7 / 10)] =
     ''Source: Unknown\<newline>0123456789''"
  using partial_entry_rule [of "[(ten_chars, 9 / 10)]" 111 chars_150 "8 / 10" "[(chars_101, 7 / 10)]"]
    partial_entry_rule [of "[(ten_chars, 9 / 10)]" 110 chars_150 "8 / 10" "[(chars_101, 7 / 10)]"]
  by (simp add: total_length_def full_entries_def ten_chars_def chars_150_def context_entry_def
        source_label_def)

section \<open>Requests to the hosted service\<close>

lemma retry_returns: "f s = (Inr v, s') \<Longrightarrow> retry (Suc n) f s = (Inr v, s')"
  by simp

lemma generate_single_attempt:
  "generate client prompt max_tokens reqs = generate_body client prompt max_tokens reqs"
proof -
  obtain v where "generate_body client prompt max_tokens reqs = (Inr v, reqs @ [(prompt, max_tokens)])"
    by (cases "client (length reqs) (prompt, max_tokens)")
       (simp_all add: generate_body_def call_service_def)
  then show ?thesis
    by (simp add: generate_def numeral_3_eq_3)
qed

lemma generate_one_request:
  "snd (generate client prompt max_tokens reqs) = reqs @ [(prompt, max_tokens)]"
  by (cases "client (length reqs) (prompt, max_tokens)")
     (simp_all add: generate_single_attempt generate_body_def call_service_def)

lemma generate_returns:
  "fst (generate client prompt max_tokens reqs) =
     Inr (case client (length reqs) (prompt, max_tokens) of Inl e \<Rightarrow> apology | Inr text \<Rightarrow> text)"
  by (cases "client (length reqs) (prompt, max_tokens)")
     (simp_all add: generate_single_attempt generate_body_def call_service_def)

lemma embed_query_single_attempt:
  "embed_query api text reqs = embed_query_body api text reqs"
proof -
  obtain v where "embed_query_body api text reqs = (Inr v, reqs @ [(truncate_text text, Retrieval_query)])"
    by (cases "api (length reqs) (truncate_text text, Retrieval_query)")
       (simp_all add: embed_query_body_def call_service_def)
  then show ?thesis
    by (simp add: embed_query_def numeral_3_eq_3)
qed

lemma embed_documents_single_attempt:
  "embed_documents api texts reqs = embed_documents_body api texts reqs"
proof -
  obtain es reqs' where "embed_documents_loop api texts [] reqs = (es, reqs')"
    by (cases "embed_documents_loop api texts [] reqs")
  then have "embed_documents_body api texts reqs = (Inr es, reqs')"
    by (simp add: embed_documents_body_def)
  then show ?thesis
    by (simp add: embed_documents_def numeral_3_eq_3)
qed

text \<open>Had the body let the exception through, the decorator would have tried again.\<close>

lemma retry_retries_a_raising_call:
  "retry 3 (call_service fails_once_llm (''prompt'', 1000)) [] =
     (Inr ''Replace the thermostat.'', [(''prompt'', 1000), (''prompt'', 1000)])"
  by (simp add: numeral_3_eq_3 call_service_def fails_once_llm_def)

text \<open>
  C7. A failing request is not retried. With a language model whose first request
  fails and whose second would succeed, \<^verbatim>\<open>generate\<close> makes one request and returns
  the apology; \<^verbatim>\<open>embed_query\<close> likewise makes one request and returns the zero vector.
  The failure does not reach the caller.
\<close>

theorem provider_failure_single_attempt:
  "generate fails_once_llm ''prompt'' 1000 [] = (Inr apology, [(''prompt'', 1000)])
   \<and> embed_query fails_once_embedder ''query'' [] = (Inr zero_vector, [(''query'', Retrieval_query)])"
  by (simp add: generate_single_attempt generate_body_def embed_query_single_attempt
        embed_query_body_def call_service_def fails_once_llm_def fails_once_embedder_def
        truncate_text_def)

section \<open>The embedding cache\<close>

lemma embed_documents_loop_log:
  "snd (embed_documents_loop api texts es reqs) =
     reqs @ map (\<lambda>text. (truncate_text text, Retrieval_document)) texts"
proof (induction texts arbitrary: es reqs)
  case Nil
  then show ?case by simp
next
  case (Cons t texts)
  show ?case
    by (cases "api (length reqs) (truncate_text t, Retrieval_document)")
       (simp_all add: call_service_def Cons.IH)
qed

lemma embed_documents_loop_length:
  "length (fst (embed_documents_loop api texts es reqs)) = length es + length texts"
proof (induction texts arbitrary: es reqs)
  case Nil
  then show ?case by simp
next
  case (Cons t texts)
  show ?case
    by (cases "api (length reqs) (truncate_text t, Retrieval_document)")
       (simp_all add: call_service_def Cons.IH)
qed

lemma embed_documents_result:
  "\<exists>es. length es = length texts \<and>
     embed_documents api texts reqs =
       (Inr es, reqs @ map (\<lambda>text. (truncate_text text, Retrieval_document)) texts)"
proof -
  obtain es reqs' where l: "embed_documents_loop api texts [] reqs = (es, reqs')"
    by (cases "embed_documents_loop api texts [] reqs")
  from l embed_documents_loop_log [of api texts "[]" reqs]
  have r: "reqs' = reqs @ map (\<lambda>text. (truncate_text text, Retrieval_document)) texts" by simp
  from l embed_documents_loop_length [of api texts "[]" reqs]
  have n: "length es = length texts" by simp
  from l r n show ?thesis
    by (simp add: embed_documents_single_attempt embed_documents_body_def)
qed

lemma get_embeddings_no_cache:
  "model_calls (snd (get_embeddings h api texts False s)) = model_calls s + 1
   \<and> api_log (snd (get_embeddings h api texts False s)) =
       api_log s @ map (\<lambda>text. (truncate_text text, Retrieval_document)) texts"
proof -
  obtain es where "embed_documents api texts (api_log s) =
       (Inr es, api_log s @ map (\<lambda>text. (truncate_text text, Retrieval_document)) texts)"
    using embed_documents_result [of texts api "api_log s"] by blast
  then show ?thesis by (simp add: get_embeddings_def)
qed

lemma get_embeddings_miss:
  assumes "cache s (get_cache_key h t) = None"
  shows "\<exists>e. get_embeddings h api [t] True s =
           (Inr [Some e],
            s\<lparr>cache := (cache s)(get_cache_key h t \<mapsto> e),
              model_calls := model_calls s + 1,
              api_log := api_log s @ [(truncate_text t, Retrieval_document)]\<rparr>)"
proof -
  obtain es where es: "length es = length [t]"
    "embed_documents api [t] (api_log s) =
       (Inr es, api_log s @ map (\<lambda>text. (truncate_text text, Retrieval_document)) [t])"
    using embed_documents_result [of "[t]" api "api_log s"] by blast
  from es(1) obtain e where e: "es = [e]" by (cases es) auto
  show ?thesis
    using assms es(2) unfolding e by (simp add: get_embeddings_def)
qed

lemma get_embeddings_hit:
  assumes "cache s (get_cache_key h t) = Some e"
  shows "get_embeddings h api [t] True s = (Inr [Some e], s)"
  using assms by (simp add: get_embeddings_def)

text \<open>\<^verbatim>\<open>get_query_embedding\<close> treats its cache in the same way.\<close>

lemma get_query_embedding_calls:
  "(cache s (get_cache_key h t) = None \<longrightarrow>
      model_calls (snd (get_query_embedding h api t True s)) = model_calls s + 1
      \<and> length (api_log (snd (get_query_embedding h api t True s))) = length (api_log s) + 1
      \<and> cache (snd (get_query_embedding h api t True s)) (get_cache_key h t) \<noteq> None)
   \<and> (cache s (get_cache_key h t) \<noteq> None \<longrightarrow> snd (get_query_embedding h api t True s) = s)
   \<and> model_calls (snd (get_query_embedding h api t False s)) = model_calls s + 1
   \<and> length (api_log (snd (get_query_embedding h api t False s))) = length (api_log s) + 1"
  by (cases "api (length (api_log s)) (truncate_text t, Retrieval_query)")
     (auto simp: get_query_embedding_def embed_query_single_attempt embed_query_body_def
        call_service_def)

text \<open>
  C6. With caching, two successive requests for a text that is not yet cached make
  one call to the embedding model and one request to the service; successive requests
  for two texts with different cache keys make two. A request with
  \<^verbatim>\<open>use_cache=False\<close> calls the embedding model whatever the cache holds, also for a
  text that has just been cached, and sends one request per text.
\<close>

theorem embedding_cache_calls:
  assumes "cache s (get_cache_key h a) = None"
    and "cache s (get_cache_key h b) = None"
    and "get_cache_key h a \<noteq> get_cache_key h b"
  shows "model_calls (snd (get_embeddings h api [a] True (snd (get_embeddings h api [a] True s))))
           = model_calls s + 1
       \<and> length (api_log (snd (get_embeddings h api [a] True (snd (get_embeddings h api [a] True s)))))
           = length (api_log s) + 1
       \<and> model_calls (snd (get_embeddings h api [b] True (snd (get_embeddings h api [a] True s))))
           = model_calls s + 2
       \<and> length (api_log (snd (get_embeddings h api [b] True (snd (get_embeddings h api [a] True s)))))
           = length (api_log s) + 2
       \<and> model_calls (snd (get_embeddings h api [a] False (snd (get_embeddings h api [a] True s))))
           = model_calls s + 2
       \<and> length (api_log (snd (get_embeddings h api [a] False (snd (get_embeddings h api [a] True s)))))
           = length (api_log s) + 2
       \<and> model_calls (snd (get_embeddings h api texts False s0)) = model_calls s0 + 1
       \<and> length (api_log (snd (get_embeddings h api texts False s0)))
           = length (api_log s0) + length texts"
proof -
  define s1 where "s1 = snd (get_embeddings h api [a] True s)"
  obtain e where c1: "cache s1 = (cache s)(get_cache_key h a \<mapsto> e)"
    and m1: "model_calls s1 = model_calls s + 1"
    and l1: "api_log s1 = api_log s @ [(truncate_text a, Retrieval_document)]"
    using get_embeddings_miss [OF assms(1), of api] unfolding s1_def by auto
  from c1 have "cache s1 (get_cache_key h a) = Some e" by simp
  from get_embeddings_hit [OF this]
  have again: "snd (get_embeddings h api [a] True s1) = s1" by simp
  from c1 assms(2,3) have "cache s1 (get_cache_key h b) = None" by simp
  from get_embeddings_miss [OF this, of api]
  have other: "model_calls (snd (get_embeddings h api [b] True s1)) = model_calls s1 + 1"
    "api_log (snd (get_embeddings h api [b] True s1))
       = api_log s1 @ [(truncate_text b, Retrieval_document)]"
    by auto
  show ?thesis
    unfolding s1_def [symmetric]
    by (simp add: again other m1 l1 get_embeddings_no_cache)
qed

theorem embedding_cache_calls_witness:
  "model_calls (snd (get_embeddings example_hash fixed_embedder [''oil''] True
      (snd (get_embeddings example_hash fixed_embedder [''oil''] True fresh_manager)))) = 1
   \<and> model_calls (snd (get_embeddings example_hash fixed_embedder [''brakes''] True
      (snd (get_embeddings example_hash fixed_embedder [''oil''] True fresh_manager)))) = 2
   \<and> model_calls (snd (get_embeddings example_hash fixed_embedder [''oil''] False
      (snd (get_embeddings example_hash fixed_embedder [''oil''] True fresh_manager)))) = 2"
  using embedding_cache_calls [of fresh_manager example_hash "''oil''" "''brakes''" fixed_embedder "[]" fresh_manager]
  by (simp add: fresh_manager_def get_cache_key_def example_hash_def str_int_def str_nat.simps)

end
